theory Spec2Isabelle
  imports Main "HOL-Library.Word"
begin

section \<open>Errors\<close>

text \<open>
  Every validator of \<^verbatim>\<open>protocol/message_validator.go\<close> returns a Go \<^verbatim>\<open>error\<close>:
  \<^verbatim>\<open>nil\<close> on success (here \<open>None\<close>), otherwise either a value made by
  \<^verbatim>\<open>errors.New(msg)\<close> or the \<^verbatim>\<open>*strconv.NumError\<close> that
  \<^verbatim>\<open>strconv.ParseFloat\<close> returned. An \<^verbatim>\<open>errors.New\<close> value is identified by its
  message, which is all a caller can observe of it.
\<close>

datatype strconv_err = ErrSyntax | ErrRange

record NumError =
  Func :: string
  Num :: string
  Err :: strconv_err

datatype error = errors_New string | strconv_NumError NumError

text \<open>
  The specification names failures by kind rather than by message. \<open>error_kind\<close> is that
  taxonomy, read off the specification's error table: it classifies the messages the
  validators produce and maps every parser error to \<open>ParseError\<close>. The table has
  no kind for a zero timestamp, so that message is left unclassified.
\<close>

datatype ErrorKind = ZeroClock | ExcessiveDrift | EmptyField | MissingPayload | InvalidEnum | ParseError

definition error_kind :: "error \<Rightarrow> ErrorKind option" where
  "error_kind e =
     (case e of
        strconv_NumError _ \<Rightarrow> Some ParseError
      | errors_New msg \<Rightarrow>
          if msg = ''clock can't be 0'' then Some ZeroClock
          else if msg = ''clock value can't be too different from whisper timestamp''
            then Some ExcessiveDrift
          else if msg \<in> set [''name can't be empty'', ''device type can't be empty'',
                  ''installationId can't be empty'', ''transaction hash can't be empty'',
                  ''value can't be empty'', ''address can't be empty'',
                  ''messageID can't be empty'', ''text can't be empty'',
                  ''chatId can't be empty'']
            then Some EmptyField
          else if msg \<in> set [''signature can't be nil'', ''no sticker content'',
                  ''sticker hash not set'']
            then Some MissingPayload
          else if msg \<in> set [''unknown content type'',
                  ''can't receive request address for transaction from others'',
                  ''unknown message type'']
            then Some InvalidEnum
          else None)"

definition fails_with :: "error option \<Rightarrow> ErrorKind \<Rightarrow> bool" where
  "fails_with verdict k = (case verdict of None \<Rightarrow> False | Some e \<Rightarrow> error_kind e = Some k)"

section \<open>Clock validation\<close>

definition maxWhisperDriftMs :: "64 word" where
  "maxWhisperDriftMs = 120000"

text \<open>
  \<^verbatim>\<open>big.Int\<close> values are \<open>int\<close>; \<^verbatim>\<open>Uint64()\<close> returns the low 64 bits of the
  magnitude, which is \<open>word_of_int\<close> on a non-negative integer.
\<close>

definition validateClockValue :: "64 word \<Rightarrow> 64 word \<Rightarrow> error option" where
  "validateClockValue clock whisperTimestamp =
     (if clock = 0 then Some (errors_New ''clock can't be 0'')
      else
        let c = uint clock;
            w = uint whisperTimestamp;
            result = c - w;
            difference = (word_of_int \<bar>result\<bar> :: 64 word)
        in if difference > maxWhisperDriftMs
           then Some (errors_New ''clock value can't be too different from whisper timestamp'')
           else None)"

section \<open>Membership updates\<close>

text \<open>
  Modelled from the spec: the struct \<^verbatim>\<open>MembershipUpdateMessage\<close> is declared in package
  \<^verbatim>\<open>protocol/v1\<close>, outside this file. The validator reads its \<^verbatim>\<open>Events\<close>, an ordered
  sequence, and of each event the unsigned 64-bit \<^verbatim>\<open>ClockValue\<close>; only these fields are
  modelled.
\<close>

record MembershipUpdateEvent =
  ClockValue :: "64 word"

record MembershipUpdateMessage =
  Events :: "MembershipUpdateEvent list"

text \<open>
  The \<^verbatim>\<open>for _, e := range message.Events\<close> loop. The subtraction is unsigned 64-bit
  subtraction, as in the source; it is only evaluated when the first conjunct holds.
\<close>

fun ValidateMembershipUpdateMessage_range :: "MembershipUpdateEvent list \<Rightarrow> 64 word \<Rightarrow> error option" where
  "ValidateMembershipUpdateMessage_range [] timeNowMs = None"
| "ValidateMembershipUpdateMessage_range (e # es) timeNowMs =
     (if ClockValue e > timeNowMs \<and> ClockValue e - timeNowMs > maxWhisperDriftMs
      then Some (errors_New ''clock value can't be too different from whisper timestamp'')
      else ValidateMembershipUpdateMessage_range es timeNowMs)"

definition ValidateMembershipUpdateMessage :: "MembershipUpdateMessage \<Rightarrow> 64 word \<Rightarrow> error option" where
  "ValidateMembershipUpdateMessage message timeNowMs =
     ValidateMembershipUpdateMessage_range (Events message) timeNowMs"

section \<open>Library functions used by the field checks\<close>

subsection \<open>strings.TrimSpace\<close>

text \<open>
  A Go string is a sequence of bytes, here \<open>string\<close>. \<^verbatim>\<open>strings.TrimSpace\<close> removes
  leading and trailing white space as defined by Unicode, decoding the bytes as UTF-8.
  \<open>White_Space_utf8\<close> lists the UTF-8 encodings of the code points with the Unicode
  White_Space property: U+0009 to U+000D, U+0020, U+0085, U+00A0, U+1680, U+2000 to
  U+200A, U+2028, U+2029, U+202F, U+205F and U+3000. A byte sequence that is not one of
  these encodings decodes to a rune that is not white space and stops the trimming.
\<close>

definition White_Space_utf8 :: "string list" where
  "White_Space_utf8 =
     [[CHR 0x09], [CHR 0x0A], [CHR 0x0B], [CHR 0x0C], [CHR 0x0D], [CHR 0x20],
      [CHR 0xC2, CHR 0x85], [CHR 0xC2, CHR 0xA0],
      [CHR 0xE1, CHR 0x9A, CHR 0x80],
      [CHR 0xE2, CHR 0x80, CHR 0x80], [CHR 0xE2, CHR 0x80, CHR 0x81],
      [CHR 0xE2, CHR 0x80, CHR 0x82], [CHR 0xE2, CHR 0x80, CHR 0x83],
      [CHR 0xE2, CHR 0x80, CHR 0x84], [CHR 0xE2, CHR 0x80, CHR 0x85],
      [CHR 0xE2, CHR 0x80, CHR 0x86], [CHR 0xE2, CHR 0x80, CHR 0x87],
      [CHR 0xE2, CHR 0x80, CHR 0x88], [CHR 0xE2, CHR 0x80, CHR 0x89],
      [CHR 0xE2, CHR 0x80, CHR 0x8A],
      [CHR 0xE2, CHR 0x80, CHR 0xA8], [CHR 0xE2, CHR 0x80, CHR 0xA9],
      [CHR 0xE2, CHR 0x80, CHR 0xAF],
      [CHR 0xE2, CHR 0x81, CHR 0x9F],
      [CHR 0xE3, CHR 0x80, CHR 0x80]]"

text \<open>\<open>trim_leading encs s\<close> drops from the front of \<open>s\<close> every leading member of \<open>encs\<close>.\<close>

fun trim_leading :: "string list \<Rightarrow> string \<Rightarrow> string" where
  "trim_leading encs [] = []"
| "trim_leading encs (c # s) =
     (case find (\<lambda>enc. take (length enc) (c # s) = enc) encs of
        None \<Rightarrow> c # s
      | Some enc \<Rightarrow> trim_leading encs (drop (length enc - 1) s))"

definition TrimLeftSpace :: "string \<Rightarrow> string" where
  "TrimLeftSpace s = trim_leading White_Space_utf8 s"

definition TrimRightSpace :: "string \<Rightarrow> string" where
  "TrimRightSpace s = rev (trim_leading (map rev White_Space_utf8) (rev s))"

definition TrimSpace :: "string \<Rightarrow> string" where
  "TrimSpace s = TrimRightSpace (TrimLeftSpace s)"

subsection \<open>strconv.ParseFloat\<close>

text \<open>
  \<^verbatim>\<open>strconv.ParseFloat(s, 64)\<close> belongs to the Go standard library. The validators
  discard the parsed number and return the parser's error unchanged, so they are defined
  for an arbitrary parser \<open>ParseFloat\<close>, a function from the string to the
  \<^verbatim>\<open>*NumError\<close> it reports (\<open>None\<close> when the string parses). Every theorem below
  holds for each such function.

  \<open>decimal_ParseFloat\<close> is one instance, used where a statement is evaluated on a
  concrete message. It is a stand-in and not the library parser: it accepts the strings
  of digits with at most one point and at least one digit, such as \<open>1.5\<close>, and
  reports a syntax error for every other string. It therefore knows no sign, exponent,
  hexadecimal form, infinity or NaN, and never reports a range error. It is evaluated
  only on \<open>abc\<close> and \<open>1.5\<close>, where the library parser gives the same answer.
\<close>

definition is_digit :: "char \<Rightarrow> bool" where
  "is_digit c = (48 \<le> (of_char c :: nat) \<and> (of_char c :: nat) \<le> 57)"

definition decimal_ParseFloat :: "string \<Rightarrow> NumError option" where
  "decimal_ParseFloat s =
     (if list_all (\<lambda>c. is_digit c \<or> c = CHR ''.'') s
         \<and> list_ex is_digit s
         \<and> length (filter (\<lambda>c. c = CHR ''.'') s) \<le> 1
      then None
      else Some \<lparr>Func = ''ParseFloat'', Num = s, Err = ErrSyntax\<rparr>)"

section \<open>Per-kind validators\<close>

text \<open>
  Modelled from the spec: the message structs and the enumerations of \<^verbatim>\<open>ChatMessage\<close>
  are generated code of package \<^verbatim>\<open>protobuf\<close>, outside this file. Each record has the
  fields the validators read, with the types the source uses them at: clocks and
  timestamps are unsigned 64-bit, text fields are strings, \<^verbatim>\<open>Signature\<close> is a byte
  slice that may be \<^verbatim>\<open>nil\<close>. Validators receive a pointer to a message; the model
  takes the message itself and so covers the calls with a non-nil argument.
\<close>

record PairInstallation =
  Clock :: "64 word"
  Name :: string
  DeviceType :: string
  InstallationId :: string

record SendTransaction =
  Clock :: "64 word"
  TransactionHash :: string
  Signature :: "8 word list option"

record RequestAddressForTransaction =
  Clock :: "64 word"
  Value :: string

record RequestTransaction =
  Clock :: "64 word"
  Value :: string
  Address :: string

record AcceptRequestAddressForTransaction =
  Clock :: "64 word"
  Id :: string
  Address :: string

record DeclineRequestAddressForTransaction =
  Clock :: "64 word"
  Id :: string

record DeclineRequestTransaction =
  Clock :: "64 word"
  Id :: string

text \<open>
  Modelled from the spec: the enumerations are 32-bit integers with named constants. The
  validator compares against three content types and two message types by name; every
  other value of the enumeration, named or not, is an \<open>other\<close> value carrying its
  number. The named constants are taken to be pairwise distinct.
\<close>

datatype ChatMessage_ContentType =
    ChatMessage_UNKNOWN_CONTENT_TYPE
  | ChatMessage_STICKER
  | ChatMessage_TRANSACTION_COMMAND
  | ChatMessage_other_ContentType "32 word"

datatype ChatMessage_MessageType =
    ChatMessage_UNKNOWN_MESSAGE_TYPE
  | ChatMessage_SYSTEM_MESSAGE_PRIVATE_GROUP
  | ChatMessage_other_MessageType "32 word"

text \<open>
  Modelled from the spec: \<^verbatim>\<open>Payload\<close> is a protobuf one-of, absent (\<^verbatim>\<open>nil\<close>) or a
  wrapper around one alternative. The sticker wrapper holds a pointer to the sticker
  sub-message, which may itself be absent.
\<close>

record StickerMessage =
  Hash :: string

datatype ChatMessage_Payload =
    ChatMessage_Sticker "StickerMessage option"
  | ChatMessage_other_Payload

record ChatMessage =
  Clock :: "64 word"
  Timestamp :: "64 word"
  Text :: string
  ChatId :: string
  ContentType :: ChatMessage_ContentType
  MessageType :: ChatMessage_MessageType
  Payload :: "ChatMessage_Payload option"

text \<open>
  Modelled from the spec: the generated accessor \<^verbatim>\<open>GetSticker\<close> extracts the sticker
  sub-message from the payload, and returns \<^verbatim>\<open>nil\<close> when the payload is absent or is
  not a sticker.
\<close>

definition GetSticker :: "ChatMessage \<Rightarrow> StickerMessage option" where
  "GetSticker message =
     (case Payload message of
        Some (ChatMessage_Sticker sticker) \<Rightarrow> sticker
      | _ \<Rightarrow> None)"

definition ValidateReceivedPairInstallation :: "PairInstallation \<Rightarrow> 64 word \<Rightarrow> error option" where
  "ValidateReceivedPairInstallation message whisperTimestamp =
     (case validateClockValue (PairInstallation.Clock message) whisperTimestamp of
        Some err \<Rightarrow> Some err
      | None \<Rightarrow>
          if length (TrimSpace (Name message)) = 0 then Some (errors_New ''name can't be empty'')
          else if length (TrimSpace (DeviceType message)) = 0
            then Some (errors_New ''device type can't be empty'')
          else if length (TrimSpace (InstallationId message)) = 0
            then Some (errors_New ''installationId can't be empty'')
          else None)"

definition ValidateReceivedSendTransaction :: "SendTransaction \<Rightarrow> 64 word \<Rightarrow> error option" where
  "ValidateReceivedSendTransaction message whisperTimestamp =
     (case validateClockValue (SendTransaction.Clock message) whisperTimestamp of
        Some err \<Rightarrow> Some err
      | None \<Rightarrow>
          if length (TrimSpace (TransactionHash message)) = 0
            then Some (errors_New ''transaction hash can't be empty'')
          else if Signature message = None then Some (errors_New ''signature can't be nil'')
          else None)"

definition ValidateReceivedRequestAddressForTransaction ::
    "(string \<Rightarrow> NumError option) \<Rightarrow> RequestAddressForTransaction \<Rightarrow> 64 word \<Rightarrow> error option" where
  "ValidateReceivedRequestAddressForTransaction ParseFloat message whisperTimestamp =
     (case validateClockValue (RequestAddressForTransaction.Clock message) whisperTimestamp of
        Some err \<Rightarrow> Some err
      | None \<Rightarrow>
          if length (TrimSpace (RequestAddressForTransaction.Value message)) = 0
            then Some (errors_New ''value can't be empty'')
          else
            (case ParseFloat (RequestAddressForTransaction.Value message) of
               Some err \<Rightarrow> Some (strconv_NumError err)
             | None \<Rightarrow> None))"

definition ValidateReceivedRequestTransaction ::
    "(string \<Rightarrow> NumError option) \<Rightarrow> RequestTransaction \<Rightarrow> 64 word \<Rightarrow> error option" where
  "ValidateReceivedRequestTransaction ParseFloat message whisperTimestamp =
     (case validateClockValue (RequestTransaction.Clock message) whisperTimestamp of
        Some err \<Rightarrow> Some err
      | None \<Rightarrow>
          if length (TrimSpace (RequestTransaction.Value message)) = 0
            then Some (errors_New ''value can't be empty'')
          else if length (TrimSpace (RequestTransaction.Address message)) = 0
            then Some (errors_New ''address can't be empty'')
          else
            (case ParseFloat (RequestTransaction.Value message) of
               Some err \<Rightarrow> Some (strconv_NumError err)
             | None \<Rightarrow> None))"




definition ValidateReceivedChatMessage :: "ChatMessage \<Rightarrow> 64 word \<Rightarrow> error option" where
  "ValidateReceivedChatMessage message whisperTimestamp =
     (case validateClockValue (ChatMessage.Clock message) whisperTimestamp of
        Some err \<Rightarrow> Some err
      | None \<Rightarrow>
          if Timestamp message = 0 then Some (errors_New ''timestamp can't be 0'')
          else if length (TrimSpace (Text message)) = 0 then Some (errors_New ''text can't be empty'')
          else if length (ChatId message) = 0 then Some (errors_New ''chatId can't be empty'')
          else if ContentType message = ChatMessage_UNKNOWN_CONTENT_TYPE
            then Some (errors_New ''unknown content type'')
          else if ContentType message = ChatMessage_TRANSACTION_COMMAND
            then Some (errors_New ''can't receive request address for transaction from others'')
          else if MessageType message = ChatMessage_UNKNOWN_MESSAGE_TYPE
                  \<or> MessageType message = ChatMessage_SYSTEM_MESSAGE_PRIVATE_GROUP
            then Some (errors_New ''unknown message type'')
          else if ContentType message = ChatMessage_STICKER then
            (if Payload message = None then Some (errors_New ''no sticker content'')
             else
               (case GetSticker message of
                  None \<Rightarrow> Some (errors_New ''no sticker content'')
                | Some sticker \<Rightarrow>
                    if length (Hash sticker) = 0 then Some (errors_New ''sticker hash not set'')
                    else None))
          else None)"

section \<open>A sample chat message\<close>

text \<open>
  A chat message that passes the clock, timestamp, text and chat-id checks against the
  reference timestamp 1000, with the content type, message type and payload left open.
  The statements below are evaluated on it.
\<close>

definition sample_ChatMessage ::
    "ChatMessage_ContentType \<Rightarrow> ChatMessage_MessageType \<Rightarrow> ChatMessage_Payload option \<Rightarrow> ChatMessage" where
  "sample_ChatMessage contentType messageType payload =
     \<lparr>ChatMessage.Clock = 1000, Timestamp = 1000, Text = ''hello'', ChatId = ''c1'',
      ContentType = contentType, MessageType = messageType, Payload = payload\<rparr>"

section \<open>Properties of the clock checks\<close>

lemma abs_diff_word:
  fixes a b :: "64 word"
  shows "uint (word_of_int \<bar>uint a - uint b\<bar> :: 64 word) = \<bar>uint a - uint b\<bar>"
proof -
  have a: "0 \<le> uint a" "uint a < 2 ^ 64" using uint_lt2p [of a] by simp_all
  have b: "0 \<le> uint b" "uint b < 2 ^ 64" using uint_lt2p [of b] by simp_all
  have "0 \<le> \<bar>uint a - uint b\<bar>" "\<bar>uint a - uint b\<bar> < 2 ^ 64" using a b by linarith+
  then show ?thesis by (simp add: uint_word_of_int take_bit_eq_mod)
qed

lemma drift_word_iff:
  fixes a b :: "64 word"
  shows "(word_of_int \<bar>uint a - uint b\<bar> :: 64 word) > maxWhisperDriftMs
           \<longleftrightarrow> \<bar>uint a - uint b\<bar> > 120000"
  by (simp add: word_less_def abs_diff_word maxWhisperDriftMs_def)

text \<open>
  C1. \<open>validateClockValue\<close> fails with the zero-clock error exactly when the clock is 0.
  For a nonzero clock it fails with the excessive-drift error exactly when the absolute
  difference of clock and reference, taken over the integers (so without unsigned
  underflow), exceeds 120000; in every other case, a difference of exactly 120000
  included, it succeeds.
\<close>

theorem validateClockValue_verdict:
  "(fails_with (validateClockValue clock reference) ZeroClock \<longleftrightarrow> clock = 0)
   \<and> (clock \<noteq> 0 \<longrightarrow>
        (fails_with (validateClockValue clock reference) ExcessiveDrift
           \<longleftrightarrow> \<bar>uint clock - uint reference\<bar> > 120000))
   \<and> (clock \<noteq> 0 \<and> \<bar>uint clock - uint reference\<bar> \<le> 120000 \<longrightarrow>
        validateClockValue clock reference = None)"
  by (simp add: validateClockValue_def Let_def drift_word_iff fails_with_def error_kind_def)

theorem validateClockValue_verdict_witness:
  "(1000 :: 64 word) \<noteq> 0
   \<and> \<bar>uint (1000 :: 64 word) - uint (121000 :: 64 word)\<bar> \<le> 120000
   \<and> validateClockValue 1000 121000 = None
   \<and> \<bar>uint (1000 :: 64 word) - uint (121001 :: 64 word)\<bar> > 120000
   \<and> fails_with (validateClockValue 1000 121001) ExcessiveDrift
   \<and> fails_with (validateClockValue 0 121001) ZeroClock"
  using validateClockValue_verdict [of 1000 121000]
    validateClockValue_verdict [of 1000 121001]
    validateClockValue_verdict [of 0 121001]
  by simp

lemma future_drift_iff:
  fixes a b :: "64 word"
  shows "(a > b \<and> a - b > maxWhisperDriftMs) \<longleftrightarrow> uint a - uint b > 120000"
proof (cases "b < a")
  case True
  then have "uint (a - b) = uint a - uint b"
    by (simp add: uint_sub_if' word_less_def word_le_def)
  with True show ?thesis
    by (simp add: word_less_def maxWhisperDriftMs_def)
next
  case False
  then have "uint a \<le> uint b" by (simp add: word_less_def)
  with False show ?thesis by simp
qed

lemma ValidateMembershipUpdateMessage_range_eq:
  "ValidateMembershipUpdateMessage_range es t =
     (if list_ex (\<lambda>e. uint (ClockValue e) - uint t > 120000) es
      then Some (errors_New ''clock value can't be too different from whisper timestamp'')
      else None)"
  by (induction es) (simp_all add: future_drift_iff)

text \<open>
  C2. \<open>ValidateMembershipUpdateMessage\<close> fails with the excessive-drift error exactly
  when some event has a clock above the reference by more than 120000. It has no other
  failure, so no zero-clock failure, and events at or behind the reference, a clock of 0
  among them, are never rejected.
\<close>

theorem ValidateMembershipUpdateMessage_verdict:
  "(fails_with (ValidateMembershipUpdateMessage message timeNowMs) ExcessiveDrift
      \<longleftrightarrow> (\<exists>e \<in> set (Events message).
             ClockValue e > timeNowMs \<and> uint (ClockValue e) - uint timeNowMs > 120000))
   \<and> (ValidateMembershipUpdateMessage message timeNowMs \<noteq> None
        \<longrightarrow> fails_with (ValidateMembershipUpdateMessage message timeNowMs) ExcessiveDrift)
   \<and> \<not> fails_with (ValidateMembershipUpdateMessage message timeNowMs) ZeroClock
   \<and> ((\<forall>e \<in> set (Events message). ClockValue e \<le> timeNowMs)
        \<longrightarrow> ValidateMembershipUpdateMessage message timeNowMs = None)"
proof -
  have gt: "uint a - uint b > 120000 \<Longrightarrow> a > b" for a b :: "64 word"
    by (simp add: word_less_def)
  have le: "a \<le> b \<Longrightarrow> \<not> uint a - uint b > 120000" for a b :: "64 word"
    by (simp add: word_le_def)
  show ?thesis
    unfolding ValidateMembershipUpdateMessage_def ValidateMembershipUpdateMessage_range_eq
    by (auto simp: fails_with_def error_kind_def list_ex_iff dest: gt le)
qed

theorem ValidateMembershipUpdateMessage_verdict_witness:
  "list_all (\<lambda>e. ClockValue e \<le> 10005000)
      (Events \<lparr>Events = [\<lparr>ClockValue = 0\<rparr>, \<lparr>ClockValue = 5000\<rparr>]\<rparr>)
   \<and> ValidateMembershipUpdateMessage
        \<lparr>Events = [\<lparr>ClockValue = 0\<rparr>, \<lparr>ClockValue = 5000\<rparr>]\<rparr> 10005000 = None
   \<and> fails_with (ValidateMembershipUpdateMessage
        \<lparr>Events = [\<lparr>ClockValue = 5000\<rparr>, \<lparr>ClockValue = 10205000\<rparr>]\<rparr> 10005000) ExcessiveDrift"
  using ValidateMembershipUpdateMessage_verdict
      [of "\<lparr>Events = [\<lparr>ClockValue = 0\<rparr>, \<lparr>ClockValue = 5000\<rparr>]\<rparr>" 10005000]
    ValidateMembershipUpdateMessage_verdict
      [of "\<lparr>Events = [\<lparr>ClockValue = 5000\<rparr>, \<lparr>ClockValue = 10205000\<rparr>]\<rparr>" 10005000]
  by simp

text \<open>
  C9. A membership update without events is accepted for every reference timestamp, 0
  included: the validator accepts exactly when no event fails the one-sided clock
  comparison of the loop, and checks nothing else.
\<close>

theorem ValidateMembershipUpdateMessage_no_events:
  "(Events message = [] \<longrightarrow> ValidateMembershipUpdateMessage message timeNowMs = None)
   \<and> (ValidateMembershipUpdateMessage message timeNowMs = None
        \<longleftrightarrow> list_all (\<lambda>e. \<not> (ClockValue e > timeNowMs
                                  \<and> ClockValue e - timeNowMs > maxWhisperDriftMs))
              (Events message))"
proof -
  have "ValidateMembershipUpdateMessage_range es timeNowMs = None
          \<longleftrightarrow> list_all (\<lambda>e. \<not> (ClockValue e > timeNowMs
                                  \<and> ClockValue e - timeNowMs > maxWhisperDriftMs)) es" for es
    by (induction es) simp_all
  then show ?thesis
    by (simp add: ValidateMembershipUpdateMessage_def)
qed

theorem ValidateMembershipUpdateMessage_no_events_witness:
  "Events \<lparr>Events = []\<rparr> = []
   \<and> ValidateMembershipUpdateMessage \<lparr>Events = []\<rparr> 0 = None
   \<and> ValidateMembershipUpdateMessage \<lparr>Events = []\<rparr> 1577836800000 = None"
  using ValidateMembershipUpdateMessage_no_events [of "\<lparr>Events = []\<rparr>" 0]
    ValidateMembershipUpdateMessage_no_events [of "\<lparr>Events = []\<rparr>" 1577836800000]
  by simp

section \<open>Properties of the field checks\<close>

lemma validateClockValue_1000: "validateClockValue 1000 1000 = None"
  by (simp add: validateClockValue_def maxWhisperDriftMs_def)

lemma TrimSpace_samples:
  "TrimSpace '''' = []"
  "TrimSpace '' '' = []"
  "TrimSpace ''hello'' = ''hello''"
  "TrimSpace ''abc'' = ''abc''"
  "TrimSpace ''1.5'' = ''1.5''"
  "TrimSpace ''0xabc'' = ''0xabc''"
  by (simp_all add: TrimSpace_def TrimLeftSpace_def TrimRightSpace_def White_Space_utf8_def)

lemma decimal_ParseFloat_samples:
  "decimal_ParseFloat ''abc'' = Some \<lparr>Func = ''ParseFloat'', Num = ''abc'', Err = ErrSyntax\<rparr>"
  "decimal_ParseFloat ''1.5'' = None"
  by (simp_all add: decimal_ParseFloat_def is_digit_def)

lemma sample_ChatMessage_checks:
  "validateClockValue (ChatMessage.Clock (sample_ChatMessage ct mt p)) 1000 = None"
  "Timestamp (sample_ChatMessage ct mt p) \<noteq> 0"
  "length (TrimSpace (Text (sample_ChatMessage ct mt p))) \<noteq> 0"
  "length (ChatId (sample_ChatMessage ct mt p)) \<noteq> 0"
  by (simp_all add: sample_ChatMessage_def validateClockValue_1000 TrimSpace_samples)

lemma sample_ChatMessage_fields:
  "ContentType (sample_ChatMessage ct mt p) = ct"
  "MessageType (sample_ChatMessage ct mt p) = mt"
  "Payload (sample_ChatMessage ct mt p) = p"
  by (simp_all add: sample_ChatMessage_def)

text \<open>
  Two scenarios of the remaining validators: a pair installation with all three fields
  set is accepted, and a transaction without signature is rejected.
\<close>

lemma ValidateReceivedPairInstallation_scenario:
  "ValidateReceivedPairInstallation
     \<lparr>PairInstallation.Clock = 1000, Name = ''dev'', DeviceType = ''mobile'',
      InstallationId = ''abc''\<rparr> 1000 = None"
  by (simp add: ValidateReceivedPairInstallation_def validateClockValue_1000 TrimSpace_samples
      TrimSpace_def TrimLeftSpace_def TrimRightSpace_def White_Space_utf8_def)

lemma ValidateReceivedSendTransaction_scenario:
  "ValidateReceivedSendTransaction
     \<lparr>SendTransaction.Clock = 1000, TransactionHash = ''0xabc'', Signature = None\<rparr> 1000
     = Some (errors_New ''signature can't be nil'')"
  by (simp add: ValidateReceivedSendTransaction_def validateClockValue_1000 TrimSpace_samples)

text \<open>
  C3. For a chat message that passes the clock check and has a nonzero timestamp, a
  non-blank text and a non-empty chat id, the validator fails with an invalid-enumeration
  error exactly when the content type is \<open>UNKNOWN_CONTENT_TYPE\<close> or
  \<open>TRANSACTION_COMMAND\<close>, or the message type is \<open>UNKNOWN_MESSAGE_TYPE\<close> or
  \<open>SYSTEM_MESSAGE_PRIVATE_GROUP\<close>. The sticker checks never produce that kind of error.
\<close>

theorem ValidateReceivedChatMessage_enum_checks:
  assumes "validateClockValue (ChatMessage.Clock message) whisperTimestamp = None"
    and "Timestamp message \<noteq> 0"
    and "length (TrimSpace (Text message)) \<noteq> 0"
    and "length (ChatId message) \<noteq> 0"
  shows "(fails_with (ValidateReceivedChatMessage message whisperTimestamp) InvalidEnum
           \<longleftrightarrow> ContentType message = ChatMessage_UNKNOWN_CONTENT_TYPE
               \<or> ContentType message = ChatMessage_TRANSACTION_COMMAND
               \<or> MessageType message = ChatMessage_UNKNOWN_MESSAGE_TYPE
               \<or> MessageType message = ChatMessage_SYSTEM_MESSAGE_PRIVATE_GROUP)
       \<and> (ValidateReceivedChatMessage message whisperTimestamp
             \<in> set [Some (errors_New ''unknown content type''),
                    Some (errors_New ''can't receive request address for transaction from others''),
                    Some (errors_New ''unknown message type'')]
           \<longleftrightarrow> ContentType message = ChatMessage_UNKNOWN_CONTENT_TYPE
               \<or> ContentType message = ChatMessage_TRANSACTION_COMMAND
               \<or> MessageType message = ChatMessage_UNKNOWN_MESSAGE_TYPE
               \<or> MessageType message = ChatMessage_SYSTEM_MESSAGE_PRIVATE_GROUP)"
  using assms
  by (simp add: ValidateReceivedChatMessage_def fails_with_def error_kind_def
      split: option.split)

theorem ValidateReceivedChatMessage_enum_checks_witness:
  "fails_with (ValidateReceivedChatMessage
      (sample_ChatMessage ChatMessage_UNKNOWN_CONTENT_TYPE (ChatMessage_other_MessageType 1) None)
      1000) InvalidEnum
   \<and> fails_with (ValidateReceivedChatMessage
      (sample_ChatMessage ChatMessage_TRANSACTION_COMMAND (ChatMessage_other_MessageType 1) None)
      1000) InvalidEnum
   \<and> fails_with (ValidateReceivedChatMessage
      (sample_ChatMessage (ChatMessage_other_ContentType 1) ChatMessage_UNKNOWN_MESSAGE_TYPE None)
      1000) InvalidEnum
   \<and> fails_with (ValidateReceivedChatMessage
      (sample_ChatMessage (ChatMessage_other_ContentType 1)
         ChatMessage_SYSTEM_MESSAGE_PRIVATE_GROUP None)
      1000) InvalidEnum
   \<and> \<not> fails_with (ValidateReceivedChatMessage
      (sample_ChatMessage (ChatMessage_other_ContentType 1) (ChatMessage_other_MessageType 1) None)
      1000) InvalidEnum
   \<and> \<not> fails_with (ValidateReceivedChatMessage
      (sample_ChatMessage ChatMessage_STICKER (ChatMessage_other_MessageType 1) None)
      1000) InvalidEnum"
proof -
  note th = ValidateReceivedChatMessage_enum_checks [OF sample_ChatMessage_checks]
  show ?thesis
    using th [of ChatMessage_UNKNOWN_CONTENT_TYPE "ChatMessage_other_MessageType 1" None]
      th [of ChatMessage_TRANSACTION_COMMAND "ChatMessage_other_MessageType 1" None]
      th [of "ChatMessage_other_ContentType 1" ChatMessage_UNKNOWN_MESSAGE_TYPE None]
      th [of "ChatMessage_other_ContentType 1" ChatMessage_SYSTEM_MESSAGE_PRIVATE_GROUP None]
      th [of "ChatMessage_other_ContentType 1" "ChatMessage_other_MessageType 1" None]
      th [of ChatMessage_STICKER "ChatMessage_other_MessageType 1" None]
    by (simp add: sample_ChatMessage_fields)
qed

text \<open>
  C4. For a chat message of content type \<open>STICKER\<close> that passes all preceding
  checks: an absent payload fails with the reason "no sticker content"; a present payload
  from which no sticker sub-message is extracted fails with the reason "no sticker
  content"; a sticker with an empty hash fails with "sticker hash not set", a reason
  distinct from "no sticker content"; and with all three layers present the message is
  accepted.
\<close>

theorem ValidateReceivedChatMessage_sticker_layers:
  assumes "validateClockValue (ChatMessage.Clock message) whisperTimestamp = None"
    and "Timestamp message \<noteq> 0"
    and "length (TrimSpace (Text message)) \<noteq> 0"
    and "length (ChatId message) \<noteq> 0"
    and "MessageType message \<noteq> ChatMessage_UNKNOWN_MESSAGE_TYPE"
    and "MessageType message \<noteq> ChatMessage_SYSTEM_MESSAGE_PRIVATE_GROUP"
    and "ContentType message = ChatMessage_STICKER"
  shows "(Payload message = None \<longrightarrow>
            ValidateReceivedChatMessage message whisperTimestamp
              = Some (errors_New ''no sticker content''))
       \<and> (Payload message \<noteq> None \<and> GetSticker message = None \<longrightarrow>
            ValidateReceivedChatMessage message whisperTimestamp
              = Some (errors_New ''no sticker content''))
       \<and> (\<forall>sticker. Payload message \<noteq> None \<and> GetSticker message = Some sticker
              \<and> length (Hash sticker) = 0 \<longrightarrow>
            ValidateReceivedChatMessage message whisperTimestamp
              = Some (errors_New ''sticker hash not set''))
       \<and> errors_New ''no sticker content'' \<noteq> errors_New ''sticker hash not set''
       \<and> (\<forall>sticker. Payload message \<noteq> None \<and> GetSticker message = Some sticker
              \<and> length (Hash sticker) \<noteq> 0 \<longrightarrow>
            ValidateReceivedChatMessage message whisperTimestamp = None)"
  using assms by (auto simp: ValidateReceivedChatMessage_def)

theorem ValidateReceivedChatMessage_sticker_layers_witness:
  "ValidateReceivedChatMessage
       (sample_ChatMessage ChatMessage_STICKER (ChatMessage_other_MessageType 1) None) 1000
     = Some (errors_New ''no sticker content'')
   \<and> ValidateReceivedChatMessage
       (sample_ChatMessage ChatMessage_STICKER (ChatMessage_other_MessageType 1)
          (Some (ChatMessage_Sticker None))) 1000
     = Some (errors_New ''no sticker content'')
   \<and> ValidateReceivedChatMessage
       (sample_ChatMessage ChatMessage_STICKER (ChatMessage_other_MessageType 1)
          (Some ChatMessage_other_Payload)) 1000
     = Some (errors_New ''no sticker content'')
   \<and> ValidateReceivedChatMessage
       (sample_ChatMessage ChatMessage_STICKER (ChatMessage_other_MessageType 1)
          (Some (ChatMessage_Sticker (Some \<lparr>Hash = ''''\<rparr>)))) 1000
     = Some (errors_New ''sticker hash not set'')
   \<and> ValidateReceivedChatMessage
       (sample_ChatMessage ChatMessage_STICKER (ChatMessage_other_MessageType 1)
          (Some (ChatMessage_Sticker (Some \<lparr>Hash = ''0xabc''\<rparr>)))) 1000
     = None"
proof -
  have pre: "MessageType (sample_ChatMessage ChatMessage_STICKER (ChatMessage_other_MessageType 1) p)
      \<noteq> ChatMessage_UNKNOWN_MESSAGE_TYPE"
    "MessageType (sample_ChatMessage ChatMessage_STICKER (ChatMessage_other_MessageType 1) p)
      \<noteq> ChatMessage_SYSTEM_MESSAGE_PRIVATE_GROUP"
    "ContentType (sample_ChatMessage ChatMessage_STICKER (ChatMessage_other_MessageType 1) p)
      = ChatMessage_STICKER" for p
    by (simp_all add: sample_ChatMessage_fields)
  note th = ValidateReceivedChatMessage_sticker_layers [OF sample_ChatMessage_checks pre]
  have g: "GetSticker (sample_ChatMessage ct mt None) = None"
    "GetSticker (sample_ChatMessage ct mt (Some (ChatMessage_Sticker s))) = s"
    "GetSticker (sample_ChatMessage ct mt (Some ChatMessage_other_Payload)) = None" for ct mt s
    by (simp_all add: GetSticker_def sample_ChatMessage_def)
  show ?thesis
    using th [of None] th [of "Some (ChatMessage_Sticker None)"]
      th [of "Some ChatMessage_other_Payload"]
      th [of "Some (ChatMessage_Sticker (Some \<lparr>Hash = ''''\<rparr>))"]
      th [of "Some (ChatMessage_Sticker (Some \<lparr>Hash = ''0xabc''\<rparr>))"]
    by (simp add: g sample_ChatMessage_fields)
qed

text \<open>
  C10. A chat message whose content type is not \<open>STICKER\<close> and which passes the clock,
  timestamp, text, chat-id, content-type and message-type checks is accepted whatever its
  payload, an absent payload included.
\<close>

theorem ValidateReceivedChatMessage_no_payload_check:
  assumes "validateClockValue (ChatMessage.Clock message) whisperTimestamp = None"
    and "Timestamp message \<noteq> 0"
    and "length (TrimSpace (Text message)) \<noteq> 0"
    and "length (ChatId message) \<noteq> 0"
    and "ContentType message \<noteq> ChatMessage_UNKNOWN_CONTENT_TYPE"
    and "ContentType message \<noteq> ChatMessage_TRANSACTION_COMMAND"
    and "MessageType message \<noteq> ChatMessage_UNKNOWN_MESSAGE_TYPE"
    and "MessageType message \<noteq> ChatMessage_SYSTEM_MESSAGE_PRIVATE_GROUP"
    and "ContentType message \<noteq> ChatMessage_STICKER"
  shows "ValidateReceivedChatMessage message whisperTimestamp = None
         \<and> ValidateReceivedChatMessage (message\<lparr>Payload := None\<rparr>) whisperTimestamp = None"
  using assms by (simp add: ValidateReceivedChatMessage_def)

theorem ValidateReceivedChatMessage_no_payload_check_witness:
  "Payload (sample_ChatMessage (ChatMessage_other_ContentType 1)
      (ChatMessage_other_MessageType 1) None) = None
   \<and> ValidateReceivedChatMessage
       (sample_ChatMessage (ChatMessage_other_ContentType 1) (ChatMessage_other_MessageType 1) None)
       1000 = None"
proof -
  have pre: "ContentType (sample_ChatMessage (ChatMessage_other_ContentType 1)
        (ChatMessage_other_MessageType 1) None) \<noteq> ChatMessage_UNKNOWN_CONTENT_TYPE"
    "ContentType (sample_ChatMessage (ChatMessage_other_ContentType 1)
        (ChatMessage_other_MessageType 1) None) \<noteq> ChatMessage_TRANSACTION_COMMAND"
    "MessageType (sample_ChatMessage (ChatMessage_other_ContentType 1)
        (ChatMessage_other_MessageType 1) None) \<noteq> ChatMessage_UNKNOWN_MESSAGE_TYPE"
    "MessageType (sample_ChatMessage (ChatMessage_other_ContentType 1)
        (ChatMessage_other_MessageType 1) None) \<noteq> ChatMessage_SYSTEM_MESSAGE_PRIVATE_GROUP"
    "ContentType (sample_ChatMessage (ChatMessage_other_ContentType 1)
        (ChatMessage_other_MessageType 1) None) \<noteq> ChatMessage_STICKER"
    by (simp_all add: sample_ChatMessage_fields)
  show ?thesis
    using ValidateReceivedChatMessage_no_payload_check [OF sample_ChatMessage_checks pre]
    by (simp add: sample_ChatMessage_fields)
qed



text \<open>
  C5, as amended. After a passing clock check, \<open>ValidateReceivedRequestTransaction\<close>
  applies its field checks in the order: value non-blank, address non-blank, value
  parses, and returns at the first failure. A blank value gives "value can't be empty";
  a non-blank value with a blank address gives "address can't be empty", whether or not
  the value parses; with both non-blank the verdict is the parser's.
\<close>

theorem ValidateReceivedRequestTransaction_check_order:
  assumes "validateClockValue (RequestTransaction.Clock message) whisperTimestamp = None"
  shows "(length (TrimSpace (RequestTransaction.Value message)) = 0 \<longrightarrow>
            ValidateReceivedRequestTransaction ParseFloat message whisperTimestamp
              = Some (errors_New ''value can't be empty''))
       \<and> (length (TrimSpace (RequestTransaction.Value message)) \<noteq> 0
            \<and> length (TrimSpace (RequestTransaction.Address message)) = 0 \<longrightarrow>
            ValidateReceivedRequestTransaction ParseFloat message whisperTimestamp
              = Some (errors_New ''address can't be empty''))
       \<and> (length (TrimSpace (RequestTransaction.Value message)) \<noteq> 0
            \<and> length (TrimSpace (RequestTransaction.Address message)) \<noteq> 0 \<longrightarrow>
            ValidateReceivedRequestTransaction ParseFloat message whisperTimestamp
              = map_option strconv_NumError (ParseFloat (RequestTransaction.Value message)))"
  using assms
  by (auto simp: ValidateReceivedRequestTransaction_def split: option.splits)

theorem ValidateReceivedRequestTransaction_check_order_witness:
  "validateClockValue
      (RequestTransaction.Clock \<lparr>RequestTransaction.Clock = 1000, Value = ''abc'', Address = ''''\<rparr>)
      1000 = None
   \<and> ValidateReceivedRequestTransaction decimal_ParseFloat
        \<lparr>RequestTransaction.Clock = 1000, Value = ''abc'', Address = ''''\<rparr> 1000
       = Some (errors_New ''address can't be empty'')
   \<and> ValidateReceivedRequestTransaction decimal_ParseFloat
        \<lparr>RequestTransaction.Clock = 1000, Value = ''abc'', Address = ''0xabc''\<rparr> 1000
       = Some (strconv_NumError \<lparr>Func = ''ParseFloat'', Num = ''abc'', Err = ErrSyntax\<rparr>)
   \<and> ValidateReceivedRequestTransaction decimal_ParseFloat
        \<lparr>RequestTransaction.Clock = 1000, Value = '' '', Address = ''''\<rparr> 1000
       = Some (errors_New ''value can't be empty'')
   \<and> ValidateReceivedRequestTransaction decimal_ParseFloat
        \<lparr>RequestTransaction.Clock = 1000, Value = ''1.5'', Address = ''0xabc''\<rparr> 1000
       = None"
proof -
  have clock: "validateClockValue
      (RequestTransaction.Clock \<lparr>RequestTransaction.Clock = 1000, Value = v, Address = a\<rparr>)
      1000 = None" for v a
    by (simp add: validateClockValue_1000)
  note th = ValidateReceivedRequestTransaction_check_order [OF clock, of _ _ decimal_ParseFloat]
  show ?thesis
    using th [of "''abc''" "''''"] th [of "''abc''" "''0xabc''"] th [of "'' ''" "''''"]
      th [of "''1.5''" "''0xabc''"] TrimSpace_samples decimal_ParseFloat_samples
      clock [of "''abc''" "''''"]
    by simp
qed

text \<open>
  The claim as stated puts the parse of the value before the address check. For the
  message with clock 1000, value "abc" and an empty address, against the reference 1000,
  the clock check passes, the value is non-blank and does not parse, the address is
  blank, and the verdict is "address can't be empty", not the parse error.
\<close>

theorem ValidateReceivedRequestTransaction_check_order_counterexample:
  "validateClockValue
      (RequestTransaction.Clock \<lparr>RequestTransaction.Clock = 1000, Value = ''abc'', Address = ''''\<rparr>)
      1000 = None
   \<and> length (TrimSpace ''abc'') \<noteq> 0
   \<and> decimal_ParseFloat ''abc'' = Some \<lparr>Func = ''ParseFloat'', Num = ''abc'', Err = ErrSyntax\<rparr>
   \<and> length (TrimSpace '''') = 0
   \<and> ValidateReceivedRequestTransaction decimal_ParseFloat
        \<lparr>RequestTransaction.Clock = 1000, Value = ''abc'', Address = ''''\<rparr> 1000
       = Some (errors_New ''address can't be empty'')
   \<and> ValidateReceivedRequestTransaction decimal_ParseFloat
        \<lparr>RequestTransaction.Clock = 1000, Value = ''abc'', Address = ''''\<rparr> 1000
       \<noteq> Some (strconv_NumError \<lparr>Func = ''ParseFloat'', Num = ''abc'', Err = ErrSyntax\<rparr>)
   \<and> \<not> fails_with (ValidateReceivedRequestTransaction decimal_ParseFloat
        \<lparr>RequestTransaction.Clock = 1000, Value = ''abc'', Address = ''''\<rparr> 1000) ParseError"
  by (simp add: ValidateReceivedRequestTransaction_def validateClockValue_1000
      decimal_ParseFloat_samples TrimSpace_samples fails_with_def error_kind_def)

text \<open>
  C6. For a \<open>RequestAddressForTransaction\<close> message with a passing clock check and a
  non-blank value, the verdict is the parser's: when the parser reports an error, that
  very error is returned, it is of the parse-error kind and it is no message made by
  \<^verbatim>\<open>errors.New\<close>; when the value parses, the message is accepted.
\<close>

theorem ValidateReceivedRequestAddressForTransaction_parse:
  assumes "validateClockValue (RequestAddressForTransaction.Clock message) whisperTimestamp = None"
    and "length (TrimSpace (RequestAddressForTransaction.Value message)) \<noteq> 0"
  shows "(\<forall>err. ParseFloat (RequestAddressForTransaction.Value message) = Some err \<longrightarrow>
            ValidateReceivedRequestAddressForTransaction ParseFloat message whisperTimestamp
              = Some (strconv_NumError err)
            \<and> fails_with (ValidateReceivedRequestAddressForTransaction ParseFloat message
                 whisperTimestamp) ParseError
            \<and> (\<forall>msg. ValidateReceivedRequestAddressForTransaction ParseFloat message
                   whisperTimestamp \<noteq> Some (errors_New msg)))
       \<and> (ParseFloat (RequestAddressForTransaction.Value message) = None \<longrightarrow>
            ValidateReceivedRequestAddressForTransaction ParseFloat message whisperTimestamp = None)"
  using assms
  by (simp add: ValidateReceivedRequestAddressForTransaction_def fails_with_def error_kind_def)

theorem ValidateReceivedRequestAddressForTransaction_parse_witness:
  "ValidateReceivedRequestAddressForTransaction decimal_ParseFloat
        \<lparr>RequestAddressForTransaction.Clock = 1000, Value = ''abc''\<rparr> 1000
       = Some (strconv_NumError \<lparr>Func = ''ParseFloat'', Num = ''abc'', Err = ErrSyntax\<rparr>)
   \<and> fails_with (ValidateReceivedRequestAddressForTransaction decimal_ParseFloat
        \<lparr>RequestAddressForTransaction.Clock = 1000, Value = ''abc''\<rparr> 1000) ParseError
   \<and> ValidateReceivedRequestAddressForTransaction decimal_ParseFloat
        \<lparr>RequestAddressForTransaction.Clock = 1000, Value = ''1.5''\<rparr> 1000 = None"
proof -
  have clock: "validateClockValue
      (RequestAddressForTransaction.Clock \<lparr>RequestAddressForTransaction.Clock = 1000, Value = v\<rparr>)
      1000 = None" for v
    by (simp add: validateClockValue_1000)
  have trim: "length (TrimSpace (RequestAddressForTransaction.Value
        \<lparr>RequestAddressForTransaction.Clock = 1000, Value = ''abc''\<rparr>)) \<noteq> 0"
    "length (TrimSpace (RequestAddressForTransaction.Value
        \<lparr>RequestAddressForTransaction.Clock = 1000, Value = ''1.5''\<rparr>)) \<noteq> 0"
    by (simp_all add: TrimSpace_samples)
  show ?thesis
    using ValidateReceivedRequestAddressForTransaction_parse [OF clock trim(1), of decimal_ParseFloat]
      ValidateReceivedRequestAddressForTransaction_parse [OF clock trim(2), of decimal_ParseFloat]
      decimal_ParseFloat_samples
    by (simp add: fails_with_def error_kind_def)
qed

end
